theory Spec2Isabelle
  imports Main "HOL-Library.Word"
begin

section \<open>The values an InputFile is built from\<close>

text \<open>
  The file \<^verbatim>\<open>src/core/input_file.ts\<close> decides everything by looking at the shape of
  a JavaScript value: \<^verbatim>\<open>"base64" in data\<close>, \<^verbatim>\<open>data instanceof Response\<close>,
  \<^verbatim>\<open>typeof data === "function"\<close>, and so on. The model therefore keeps one type of
  values, with one constructor for each class of the constructor's declared union and one
  for plain objects, whose fields are all optional so that a single object can carry
  several of them at once (an \<^verbatim>\<open>fs.ReadStream\<close> is an async iterable that also has
  a \<^verbatim>\<open>path\<close>; a \<^verbatim>\<open>Response\<close> also has a \<^verbatim>\<open>url\<close>).
\<close>

type_synonym uint8array = "8 word list"

text \<open>
  An \<^verbatim>\<open>AsyncIterable<Uint8Array>\<close>, seen from the code that drains it with
  \<^verbatim>\<open>yield*\<close>: the chunks it produces, and the exception (its message) it throws after
  them, if any.
\<close>

datatype stream = Stream (items: "uint8array list") (fault: "string option")

text \<open>
  The properties of a \<^verbatim>\<open>URL\<close> object that the code reads. They are stored as the
  object has them: for \<^verbatim>\<open>new URL("file:///tmp/a.txt")\<close> the property
  \<^verbatim>\<open>protocol\<close> is \<^verbatim>\<open>"file:"\<close> (the URL Standard's getter returns the scheme
  followed by a colon), \<^verbatim>\<open>hostname\<close> is empty and \<^verbatim>\<open>pathname\<close> is
  \<^verbatim>\<open>"/tmp/a.txt"\<close>.
\<close>

record url =
  href :: string
  protocol :: string
  hostname :: string
  pathname :: string

text \<open>The properties of a \<^verbatim>\<open>Response\<close> that the code reads; a null body is \<open>None\<close>.\<close>

record response =
  status :: int
  statusText :: string
  url :: string
  ok :: bool
  body :: "stream option"

text \<open>
  The value of a \<^verbatim>\<open>path\<close> property. The constructor declares it a string, while the
  \<^verbatim>\<open>path\<close> of an \<^verbatim>\<open>fs.ReadStream\<close> is a string or a Buffer, which is what
  \<^verbatim>\<open>typeof file.path === "string"\<close> in \<^verbatim>\<open>guessFilename\<close> tells apart.
\<close>

datatype path_value = PathString string | PathBuffer uint8array

text \<open>
  The type \<open>'w\<close> is the state of the world outside the InputFile (the file system, the
  network, the state captured by the caller's closures). A producer function
  \<^verbatim>\<open>() => MaybePromise<AsyncIterable<Uint8Array>>\<close> is a transition on it that returns
  either the message of what it throws (or rejects with) or the iterable; \<^verbatim>\<open>await\<close>
  is the identity in this sequential model.

  \<^item> \<open>Blob s\<close> and \<open>File n s\<close>: \<^verbatim>\<open>stream()\<close> returns a fresh stream \<open>s\<close> of the
    contents at every call; a \<^verbatim>\<open>File\<close> is a \<^verbatim>\<open>Blob\<close> with a \<^verbatim>\<open>name\<close>.
  \<^item> \<open>Object b r u p a\<close>: an object with the optional properties \<^verbatim>\<open>base64\<close>,
    \<^verbatim>\<open>readable\<close>, \<^verbatim>\<open>url\<close>, \<^verbatim>\<open>path\<close> and \<^verbatim>\<open>[Symbol.asyncIterator]\<close>
    (\<open>{ path: "a" }\<close> is \<open>Object None None None (Some (PathString ''a'')) None\<close>; a
    \<^verbatim>\<open>ReadableStream\<close> or an async generator is
    \<open>Object None None None None (Some s)\<close>).
\<close>

datatype 'w jsval =
    Uint8Array uint8array
  | URL url
  | Blob stream
  | File string stream
  | Response response
  | Function "'w \<Rightarrow> (string + stream) \<times> 'w"
  | Object "string option" "'w jsval option" "string option" "path_value option" "stream option"

text \<open>\<^verbatim>\<open>"base64" in data\<close> and \<^verbatim>\<open>data.base64\<close>.\<close>

fun base64_of :: "'w jsval \<Rightarrow> string option" where
  "base64_of (Object b r u p a) = b"
| "base64_of _ = None"

text \<open>\<^verbatim>\<open>"readable" in data\<close> and \<^verbatim>\<open>data.readable\<close>.\<close>

fun readable_of :: "'w jsval \<Rightarrow> 'w jsval option" where
  "readable_of (Object b r u p a) = r"
| "readable_of _ = None"

text \<open>
  \<^verbatim>\<open>"url" in data\<close> and \<^verbatim>\<open>data.url\<close>: a \<^verbatim>\<open>Response\<close> has the property too
  (a \<^verbatim>\<open>URL\<close> object does not: it has \<^verbatim>\<open>href\<close>).
\<close>

fun url_of :: "'w jsval \<Rightarrow> string option" where
  "url_of (Object b r u p a) = u"
| "url_of (Response res) = Some (url res)"
| "url_of _ = None"

text \<open>\<^verbatim>\<open>"path" in data\<close> and \<^verbatim>\<open>data.path\<close>.\<close>

fun path_of :: "'w jsval \<Rightarrow> path_value option" where
  "path_of (Object b r u p a) = p"
| "path_of _ = None"

text \<open>\<^verbatim>\<open>Symbol.asyncIterator in data\<close>, and what \<^verbatim>\<open>yield* data\<close> drains.\<close>

fun asyncIterator_of :: "'w jsval \<Rightarrow> stream option" where
  "asyncIterator_of (Object b r u p a) = a"
| "asyncIterator_of _ = None"

text \<open>
  \<^verbatim>\<open>"stream" in data\<close> and \<^verbatim>\<open>data.stream()\<close>: of the constructor's declared union
  only \<^verbatim>\<open>Blob\<close> (and its subclass \<^verbatim>\<open>File\<close>) has the method.
\<close>

fun stream_of :: "'w jsval \<Rightarrow> stream option" where
  "stream_of (Blob s) = Some s"
| "stream_of (File n s) = Some s"
| "stream_of _ = None"

text \<open>\<^verbatim>\<open>typeof data === "function"\<close> and \<^verbatim>\<open>data()\<close>.\<close>

fun function_of :: "'w jsval \<Rightarrow> ('w \<Rightarrow> (string + stream) \<times> 'w) option" where
  "function_of (Function g) = Some g"
| "function_of _ = None"

text \<open>\<^verbatim>\<open>data instanceof Uint8Array\<close>, \<^verbatim>\<open>Response\<close>, \<^verbatim>\<open>URL\<close>, \<^verbatim>\<open>File\<close>.\<close>

fun Uint8Array_of :: "'w jsval \<Rightarrow> uint8array option" where
  "Uint8Array_of (Uint8Array b) = Some b"
| "Uint8Array_of _ = None"

fun Response_of :: "'w jsval \<Rightarrow> response option" where
  "Response_of (Response res) = Some res"
| "Response_of _ = None"

fun URL_of :: "'w jsval \<Rightarrow> url option" where
  "URL_of (URL u) = Some u"
| "URL_of _ = None"

fun File_name_of :: "'w jsval \<Rightarrow> string option" where
  "File_name_of (File n s) = Some n"
| "File_name_of _ = None"

text \<open>\<^verbatim>\<open>Object.prototype.toString.call(data)\<close>, as \<^verbatim>\<open>assertNever\<close> prints it.\<close>

fun toString :: "'w jsval \<Rightarrow> string" where
  "toString (Uint8Array b) = ''[object Uint8Array]''"
| "toString (URL u) = ''[object URL]''"
| "toString (Blob s) = ''[object Blob]''"
| "toString (File n s) = ''[object File]''"
| "toString (Response res) = ''[object Response]''"
| "toString (Function g) = ''[object Function]''"
| "toString (Object b r u p a) = ''[object Object]''"

section \<open>Errors\<close>

text \<open>
  \<^verbatim>\<open>class ResponseError extends Error\<close>: the fields its constructor sets.
\<close>

record ResponseError =
  message :: string
  error_name :: string
  error_code :: int
  of_response :: response

definition ResponseError_new :: "response \<Rightarrow> ResponseError" where
  "ResponseError_new res =
     (let message0 = (if body res \<noteq> None then statusText res else ''No response body'');
          message1 = (if url res \<noteq> [] then message0 @ '' from '' @ url res else message0)
      in \<lparr> message = message1, error_name = ''ResponseError'',
           error_code = status res, of_response = res \<rparr>)"

text \<open>
  What a call can throw: a \<^verbatim>\<open>TypeError\<close> with its message, a \<^verbatim>\<open>ResponseError\<close>,
  or whatever the platform, the caller's producer or the caller's iterable throws
  (\<open>Thrown\<close>, with its message).
\<close>

datatype error = TypeError string | ResponseErr ResponseError | Thrown string

definition reuse_error :: error where
  "reuse_error = TypeError ''Cannot reuse InputFile data source!''"

definition assertNever :: "'w jsval \<Rightarrow> error" where
  "assertNever data = TypeError (''Unexpected '' @ toString data @ ''!'')"

section \<open>The platform\<close>

text \<open>
  What the code calls and the repository does not contain: the \<^verbatim>\<open>URL\<close> constructor
  (\<open>None\<close> when it throws its \<^verbatim>\<open>TypeError\<close>), the probe \<^verbatim>\<open>isDeno\<close>,
  \<^verbatim>\<open>Deno.open(path)\<close> followed by \<^verbatim>\<open>.readable\<close>,
  \<^verbatim>\<open>getBuiltinModule("node:fs").createReadStream(path)\<close>, and \<^verbatim>\<open>fetch(url)\<close>.
  The three I/O operations are transitions on the world that return the message of the
  exception or the result.
\<close>

record 'w platform =
  new_URL :: "string \<Rightarrow> url option"
  isDeno :: bool
  Deno_open :: "path_value \<Rightarrow> 'w \<Rightarrow> (string + stream) \<times> 'w"
  createReadStream :: "path_value \<Rightarrow> 'w \<Rightarrow> (string + stream) \<times> 'w"
  fetch :: "url \<Rightarrow> 'w \<Rightarrow> (string + response) \<times> 'w"

text \<open>
  \<^verbatim>\<open>basename\<close> of \<^verbatim>\<open>node:path\<close> (POSIX flavour, no suffix argument): trailing
  slashes are dropped, then the text after the last remaining slash is returned.
\<close>

definition basename :: "string \<Rightarrow> string" where
  "basename p =
     rev (takeWhile (\<lambda>c. c \<noteq> CHR ''/'') (dropWhile (\<lambda>c. c = CHR ''/'') (rev p)))"

section \<open>preprocess, the constructor and guessFilename\<close>

text \<open>
  \<^verbatim>\<open>new URL(s)\<close> and \<^verbatim>\<open>preprocess\<close>; \<open>Inl\<close> is the exception thrown.
\<close>

definition URL_new :: "'w platform \<Rightarrow> string \<Rightarrow> error + 'w jsval" where
  "URL_new P s =
     (case new_URL P s of None \<Rightarrow> Inl (TypeError ''Invalid URL'') | Some u \<Rightarrow> Inr (URL u))"

definition preprocess :: "'w platform \<Rightarrow> 'w jsval \<Rightarrow> error + 'w jsval" where
  "preprocess P data =
     (case base64_of data of
        Some b \<Rightarrow> URL_new P (''data:;base64,'' @ b)
      | None \<Rightarrow>
     (case readable_of data of
        Some r \<Rightarrow> Inr r
      | None \<Rightarrow>
     (if Response_of data \<noteq> None then Inr data
      else
     (case url_of data of
        Some s \<Rightarrow> URL_new P s
      | None \<Rightarrow> Inr data))))"

record 'w InputFile =
  consumed :: bool
  fileData :: "'w jsval"
  name :: "string option"

text \<open>
  \<^verbatim>\<open>guessFilename\<close> on the stored representation: a \<^verbatim>\<open>path\<close> that is a string
  gives its basename; then a truthy (non-empty) \<^verbatim>\<open>url\<close> property replaces the value
  by \<^verbatim>\<open>new URL(file.url)\<close>, which may throw; then a \<^verbatim>\<open>File\<close> gives its name, a
  value that is not a \<^verbatim>\<open>URL\<close> gives \<^verbatim>\<open>undefined\<close>, and a \<^verbatim>\<open>URL\<close> gives the
  basename of its path or of its hostname.
\<close>

definition guessFilename :: "'w platform \<Rightarrow> 'w jsval \<Rightarrow> error + string option" where
  "guessFilename P fileData0 =
     (case path_of fileData0 of
        Some (PathString p) \<Rightarrow> Inr (Some (basename p))
      | _ \<Rightarrow>
     (case (case url_of fileData0 of
              Some s \<Rightarrow> if s \<noteq> [] then URL_new P s else Inr fileData0
            | None \<Rightarrow> Inr fileData0) of
        Inl e \<Rightarrow> Inl e
      | Inr file \<Rightarrow>
     (case File_name_of file of
        Some n \<Rightarrow> Inr (Some n)
      | None \<Rightarrow>
     (case URL_of file of
        None \<Rightarrow> Inr None
      | Some u \<Rightarrow>
          if pathname u \<noteq> ''/'' \<and> basename (pathname u) \<noteq> []
          then Inr (Some (basename (pathname u)))
          else Inr (Some (basename (hostname u)))))))"

text \<open>
  \<^verbatim>\<open>new InputFile(file, filename)\<close>; \<open>Inl\<close> is the exception the constructor throws.
  \<^verbatim>\<open>filename ?? this.guessFilename()\<close> guesses only when no filename is given.
\<close>

definition InputFile_new :: "'w platform \<Rightarrow> 'w jsval \<Rightarrow> string option \<Rightarrow> error + 'w InputFile" where
  "InputFile_new P file filename =
     (case preprocess P file of
        Inl e \<Rightarrow> Inl e
      | Inr d \<Rightarrow>
     (case filename of
        Some n \<Rightarrow> Inr \<lparr> consumed = False, fileData = d, name = Some n \<rparr>
      | None \<Rightarrow>
     (case guessFilename P d of
        Inl e \<Rightarrow> Inl e
      | Inr g \<Rightarrow> Inr \<lparr> consumed = False, fileData = d, name = g \<rparr>)))"

section \<open>Reading: the async iterator, readFile and fetchFile\<close>

text \<open>
  What a read does to the outside, in order: calling the caller's producer, calling
  \<^verbatim>\<open>stream()\<close> of a Blob, opening a path through Deno or through \<^verbatim>\<open>node:fs\<close>,
  fetching a URL, and starting to drain an iterable with \<^verbatim>\<open>yield*\<close>.
\<close>

datatype event =
    Call_producer
  | Call_stream
  | Call_Deno_open path_value
  | Call_createReadStream path_value
  | Call_fetch url
  | Iterate

text \<open>
  \<^verbatim>\<open>readFile\<close>: on Deno \<^verbatim>\<open>(await Deno.open(path)).readable\<close>, elsewhere
  \<^verbatim>\<open>fs.createReadStream(path)\<close>.
\<close>

definition readFile :: "'w platform \<Rightarrow> path_value \<Rightarrow> 'w \<Rightarrow> (error + stream) \<times> event list \<times> 'w" where
  "readFile P path w =
     (if isDeno P then
        (case Deno_open P path w of
           (Inl m, w') \<Rightarrow> (Inl (Thrown m), [Call_Deno_open path], w')
         | (Inr s, w') \<Rightarrow> (Inr s, [Call_Deno_open path], w'))
      else
        (case createReadStream P path w of
           (Inl m, w') \<Rightarrow> (Inl (Thrown m), [Call_createReadStream path], w')
         | (Inr s, w') \<Rightarrow> (Inr s, [Call_createReadStream path], w')))"

text \<open>
  \<^verbatim>\<open>fetchFile\<close> compares \<^verbatim>\<open>url.protocol\<close> with the string \<^verbatim>\<open>"file"\<close> (no colon),
  as the source does. After the fetch it throws unless \<^verbatim>\<open>response.ok\<close> holds and the
  body is not null. A rejected \<^verbatim>\<open>fetch\<close> promise is \<open>Inl\<close>.
\<close>

definition fetchFile :: "'w platform \<Rightarrow> url \<Rightarrow> 'w \<Rightarrow> (error + stream) \<times> event list \<times> 'w" where
  "fetchFile P u w =
     (if protocol u = ''file'' then readFile P (PathString (pathname u)) w
      else
        (case fetch P u w of
           (Inl m, w') \<Rightarrow> (Inl (Thrown m), [Call_fetch u], w')
         | (Inr res, w') \<Rightarrow>
             (case (ok res, body res) of
                (True, Some s) \<Rightarrow> (Inr s, [Call_fetch u], w')
              | _ \<Rightarrow> (Inl (ResponseErr (ResponseError_new res)), [Call_fetch u], w'))))"

text \<open>
  One read, that is the async generator driven until it returns or throws: the chunks it
  yielded, the exception that ended it (if any), what it did to the outside, the instance
  afterwards and the world afterwards.
\<close>

record 'w reading =
  yielded :: "uint8array list"
  thrown :: "error option"
  events :: "event list"
  this_after :: "'w InputFile"
  world_after :: 'w

definition raise :: "error \<Rightarrow> event list \<Rightarrow> 'w InputFile \<Rightarrow> 'w \<Rightarrow> 'w reading" where
  "raise e evs this w =
     \<lparr> yielded = [], thrown = Some e, events = evs, this_after = this, world_after = w \<rparr>"

text \<open>\<^verbatim>\<open>yield* s\<close>: every chunk of \<open>s\<close>, then its exception if it has one.\<close>

definition drain :: "stream \<Rightarrow> event list \<Rightarrow> 'w InputFile \<Rightarrow> 'w \<Rightarrow> 'w reading" where
  "drain s evs this w =
     \<lparr> yielded = items s, thrown = map_option Thrown (fault s), events = evs @ [Iterate],
       this_after = this, world_after = w \<rparr>"

text \<open>\<^verbatim>\<open>async *[Symbol.asyncIterator]()\<close>, with the branches in the order of the source.\<close>

definition asyncIterator :: "'w platform \<Rightarrow> 'w InputFile \<Rightarrow> 'w \<Rightarrow> 'w reading" where
  "asyncIterator P this w =
     (let data = fileData this in
      if consumed this then raise reuse_error [] this w
      else
     (case function_of data of
        Some g \<Rightarrow>
          (case g w of
             (Inl m, w') \<Rightarrow> raise (Thrown m) [Call_producer] this w'
           | (Inr s, w') \<Rightarrow> drain s [Call_producer] this w')
      | None \<Rightarrow>
     (case Uint8Array_of data of
        Some b \<Rightarrow>
          \<lparr> yielded = [b], thrown = None, events = [], this_after = this, world_after = w \<rparr>
      | None \<Rightarrow>
     (case stream_of data of
        Some s \<Rightarrow> drain s [Call_stream] this w
      | None \<Rightarrow>
     (case asyncIterator_of data of
        Some s \<Rightarrow> drain s [] (this\<lparr> consumed := True \<rparr>) w
      | None \<Rightarrow>
     (case path_of data of
        Some p \<Rightarrow>
          (case readFile P p w of
             (Inl e, evs, w') \<Rightarrow> raise e evs this w'
           | (Inr s, evs, w') \<Rightarrow> drain s evs this w')
      | None \<Rightarrow>
     (case Response_of data of
        Some res \<Rightarrow>
          (case body res of
             None \<Rightarrow> raise (ResponseErr (ResponseError_new res)) [] this w
           | Some s \<Rightarrow> drain s [] (this\<lparr> consumed := True \<rparr>) w)
      | None \<Rightarrow>
     (case URL_of data of
        Some u \<Rightarrow>
          (case fetchFile P u w of
             (Inl e, evs, w') \<Rightarrow> raise e evs this w'
           | (Inr s, evs, w') \<Rightarrow> drain s evs this w')
      | None \<Rightarrow> raise (assertNever data) [] this w))))))))"

text \<open>\<open>n\<close> reads one after the other, each on the instance and the world the last one left.\<close>

fun reads :: "'w platform \<Rightarrow> nat \<Rightarrow> 'w InputFile \<Rightarrow> 'w \<Rightarrow> 'w InputFile \<times> 'w" where
  "reads P 0 this w = (this, w)"
| "reads P (Suc n) this w =
     (let r = asyncIterator P this w in reads P n (this_after r) (world_after r))"

section \<open>An example platform\<close>

text \<open>
  A small platform on which the model runs: the world is a counter that every call of the
  platform and of the producer below increments; the \<^verbatim>\<open>URL\<close> constructor knows
  six URLs (with the properties the URL Standard gives them) and rejects every other
  string; one local file exists; two URLs can be fetched, one of them answering 404.
\<close>

definition URL_example_com :: url where
  "URL_example_com =
     \<lparr> href = ''https://example.com/'', protocol = ''https:'',
       hostname = ''example.com'', pathname = ''/'' \<rparr>"

definition URL_x_bin :: url where
  "URL_x_bin =
     \<lparr> href = ''https://example.com/data/x.bin'', protocol = ''https:'',
       hostname = ''example.com'', pathname = ''/data/x.bin'' \<rparr>"

definition URL_data_hi :: url where
  "URL_data_hi =
     \<lparr> href = ''data:;base64,aGk='', protocol = ''data:'',
       hostname = [], pathname = '';base64,aGk='' \<rparr>"

definition URL_tmp_a_txt :: url where
  "URL_tmp_a_txt =
     \<lparr> href = ''file:///tmp/a.txt'', protocol = ''file:'',
       hostname = [], pathname = ''/tmp/a.txt'' \<rparr>"

definition URL_file_root :: url where
  "URL_file_root =
     \<lparr> href = ''file:///'', protocol = ''file:'', hostname = [], pathname = ''/'' \<rparr>"

text \<open>
  \<^verbatim>\<open>new URL("data:;base64,a?b")\<close>: the \<^verbatim>\<open>?\<close> ends the path and starts the query,
  so \<^verbatim>\<open>pathname\<close> is \<^verbatim>\<open>";base64,a"\<close> (and \<^verbatim>\<open>search\<close> is \<^verbatim>\<open>"?b"\<close>).
\<close>

definition URL_data_query :: url where
  "URL_data_query =
     \<lparr> href = ''data:;base64,a?b'', protocol = ''data:'',
       hostname = [], pathname = '';base64,a'' \<rparr>"

definition example_URLs :: "url list" where
  "example_URLs =
     [URL_example_com, URL_x_bin, URL_data_hi, URL_tmp_a_txt, URL_file_root, URL_data_query]"

definition example_new_URL :: "string \<Rightarrow> url option" where
  "example_new_URL s = find (\<lambda>u. href u = s) example_URLs"

definition example_open :: "path_value \<Rightarrow> nat \<Rightarrow> (string + stream) \<times> nat" where
  "example_open p w =
     (if p = PathString ''/tmp/a.txt'' then (Inr (Stream [[104, 105]] None), Suc w)
      else (Inl ''No such file or directory'', Suc w))"

definition example_fetch :: "url \<Rightarrow> nat \<Rightarrow> (string + response) \<times> nat" where
  "example_fetch u w =
     (if href u = ''https://example.com/'' then
        (Inr \<lparr> status = 200, statusText = ''OK'', url = href u, ok = True,
               body = Some (Stream [[60, 33], [62]] None) \<rparr>, Suc w)
      else if href u = ''https://example.com/data/x.bin'' then
        (Inr \<lparr> status = 404, statusText = ''Not Found'', url = href u, ok = False,
               body = Some (Stream [] None) \<rparr>, Suc w)
      else (Inl ''fetch failed'', Suc w))"

definition example_platform :: "nat platform" where
  "example_platform =
     \<lparr> new_URL = example_new_URL, isDeno = True, Deno_open = example_open,
       createReadStream = example_open, fetch = example_fetch \<rparr>"

text \<open>
  A producer whose closure counts its calls in the world: the \<open>n\<close>-th call returns a
  fresh iterable with the single chunk \<open>[n]\<close>.
\<close>

definition example_producer :: "nat \<Rightarrow> (string + stream) \<times> nat" where
  "example_producer w = (Inr (Stream [[of_nat w]] None), Suc w)"

text \<open>Responses with and without a body, as the caller may pass them in.\<close>

definition Response_hello :: response where
  "Response_hello =
     \<lparr> status = 200, statusText = ''OK'', url = ''https://example.com/data/x.bin'', ok = True,
       body = Some (Stream [[104, 105]] None) \<rparr>"

definition Response_no_body :: response where
  "Response_no_body =
     \<lparr> status = 204, statusText = ''No Content'', url = [], ok = True, body = None \<rparr>"

text \<open>
  An open handle on \<^verbatim>\<open>/x/y.txt\<close>: an async iterable that also has a
  \<^verbatim>\<open>path\<close>, as a Node read stream has.
\<close>

definition example_handle :: "nat jsval" where
  "example_handle =
     Object None None None (Some (PathString ''/x/y.txt'')) (Some (Stream [[1], [2]] None))"

section \<open>Helper lemmas\<close>

lemma basename_no_slash: "CHR ''/'' \<notin> set s \<Longrightarrow> basename s = s"
proof -
  assume h: "CHR ''/'' \<notin> set s"
  have d: "dropWhile (\<lambda>c. c = CHR ''/'') (rev s) = rev s"
    using h by (cases "rev s") (auto dest: arg_cong[where f=set])
  have t: "takeWhile (\<lambda>c. c \<noteq> CHR ''/'') (rev s) = rev s"
    using h by auto
  show ?thesis by (simp add: basename_def d t)
qed

lemma reading_simps:
  "this_after (raise e evs this w) = this" "thrown (raise e evs this w) = Some e"
  "yielded (raise e evs this w) = []" "events (raise e evs this w) = evs"
  "world_after (raise e evs this w) = w"
  "this_after (drain s evs this w) = this" "thrown (drain s evs this w) = map_option Thrown (fault s)"
  "yielded (drain s evs this w) = items s" "events (drain s evs this w) = evs @ [Iterate]"
  "world_after (drain s evs this w) = w"
  by (simp_all add: raise_def drain_def)

lemma asyncIterator_consumed:
  "consumed this \<Longrightarrow> asyncIterator P this w = raise reuse_error [] this w"
  by (simp add: asyncIterator_def)

lemma asyncIterator_Uint8Array:
  "\<not> consumed this \<Longrightarrow> fileData this = Uint8Array b \<Longrightarrow>
   asyncIterator P this w =
     \<lparr> yielded = [b], thrown = None, events = [], this_after = this, world_after = w \<rparr>"
  by (simp add: asyncIterator_def)

lemma asyncIterator_Function:
  "\<not> consumed this \<Longrightarrow> fileData this = Function g \<Longrightarrow>
   asyncIterator P this w =
     (case g w of
        (Inl m, w') \<Rightarrow> raise (Thrown m) [Call_producer] this w'
      | (Inr s, w') \<Rightarrow> drain s [Call_producer] this w')"
  by (simp add: asyncIterator_def)

lemma asyncIterator_iterable:
  "\<not> consumed this \<Longrightarrow> asyncIterator_of (fileData this) = Some s \<Longrightarrow>
   asyncIterator P this w = drain s [] (this\<lparr> consumed := True \<rparr>) w"
  by (cases "fileData this") (simp_all add: asyncIterator_def)

lemma asyncIterator_Response:
  "\<not> consumed this \<Longrightarrow> fileData this = Response res \<Longrightarrow>
   asyncIterator P this w =
     (case body res of
        None \<Rightarrow> raise (ResponseErr (ResponseError_new res)) [] this w
      | Some s \<Rightarrow> drain s [] (this\<lparr> consumed := True \<rparr>) w)"
  by (simp add: asyncIterator_def)

lemma asyncIterator_URL:
  "\<not> consumed this \<Longrightarrow> fileData this = URL u \<Longrightarrow>
   asyncIterator P this w =
     (case fetchFile P u w of
        (Inl e, evs, w') \<Rightarrow> raise e evs this w'
      | (Inr s, evs, w') \<Rightarrow> drain s evs this w')"
  by (simp add: asyncIterator_def)

lemma this_after_cases:
  "this_after (asyncIterator P this w) =
     (if \<not> consumed this \<and> (asyncIterator_of (fileData this) \<noteq> None
           \<or> (\<exists>res s. fileData this = Response res \<and> body res = Some s))
      then this\<lparr> consumed := True \<rparr> else this)"
  by (cases "fileData this")
     (simp_all add: asyncIterator_def Let_def reading_simps split: option.split prod.split sum.split)

lemma fileData_after: "fileData (this_after (asyncIterator P this w)) = fileData this"
  by (simp add: this_after_cases)

lemma consumed_after:
  "consumed (this_after (asyncIterator P this w)) =
     (consumed this \<or> asyncIterator_of (fileData this) \<noteq> None
       \<or> (\<exists>res s. fileData this = Response res \<and> body res = Some s))"
  by (auto simp: this_after_cases)

lemma fileData_reads: "fileData (fst (reads P n this w)) = fileData this"
  by (induction n arbitrary: this w) (simp_all add: Let_def fileData_after)

lemma reads_add: "reads P (m + k) this w = (case reads P m this w of (t, v) \<Rightarrow> reads P k t v)"
  by (induction m arbitrary: this w) (simp_all add: Let_def)

lemma consumed_reads_mono:
  "consumed this \<Longrightarrow> consumed (fst (reads P k this w))"
  by (induction k arbitrary: this w) (simp_all add: Let_def consumed_after)

lemma never_consumed_reads:
  "\<not> consumed this \<Longrightarrow> asyncIterator_of (fileData this) = None \<Longrightarrow> Response_of (fileData this) = None
   \<Longrightarrow> \<not> consumed (fst (reads P n this w))"
proof (induction n arbitrary: this w)
  case 0
  then show ?case by simp
next
  case (Suc n)
  have a: "this_after (asyncIterator P this w) = this"
    using Suc.prems by (auto simp: this_after_cases)
  show ?case using Suc.IH[of this] Suc.prems by (simp add: Let_def a)
qed

lemma preprocess_passes:
  "base64_of d = None \<Longrightarrow> readable_of d = None \<Longrightarrow> url_of d = None \<Longrightarrow> preprocess P d = Inr d"
  by (simp add: preprocess_def)

lemma preprocess_Response: "preprocess P (Response res) = Inr (Response res)"
  by (simp add: preprocess_def)

lemma preprocess_readable:
  "base64_of d = None \<Longrightarrow> readable_of d = Some h \<Longrightarrow> preprocess P d = Inr h"
  by (simp add: preprocess_def)

lemma InputFile_new_fresh:
  "InputFile_new P file filename = Inr this \<Longrightarrow>
   \<not> consumed this \<and> preprocess P file = Inr (fileData this)"
  by (auto simp: InputFile_new_def split: sum.splits option.splits)

lemma second_read:
  assumes shape: "asyncIterator_of (fileData this) \<noteq> None \<or> Response_of (fileData this) \<noteq> None"
    and first: "thrown (asyncIterator P this w) = None"
  shows "asyncIterator P (this_after (asyncIterator P this w)) (world_after (asyncIterator P this w)) =
         raise reuse_error [] (this_after (asyncIterator P this w)) (world_after (asyncIterator P this w))"
proof -
  have nc: "\<not> consumed this"
    using first by (auto simp: asyncIterator_def raise_def)
  have "consumed (this_after (asyncIterator P this w))"
  proof (cases "asyncIterator_of (fileData this)")
    case (Some s)
    then show ?thesis using nc by (simp add: asyncIterator_iterable drain_def)
  next
    case None
    with shape obtain res where r: "fileData this = Response res"
      by (cases "fileData this") auto
    with first nc have "body res \<noteq> None"
      by (auto simp: asyncIterator_Response raise_def split: option.splits)
    with r nc show ?thesis
      by (auto simp: asyncIterator_Response drain_def)
  qed
  then show ?thesis by (rule asyncIterator_consumed)
qed

lemma preprocess_rereadable:
  assumes "preprocess P src = Inr d"
    and "(\<exists>b. src = Uint8Array b)
           \<or> (\<exists>p. src = Object None None None (Some p) None)
           \<or> (\<exists>u. src = URL u)
           \<or> (\<exists>s. src = Object None None (Some s) None None)
           \<or> (\<exists>b. src = Object (Some b) None None None None)
           \<or> (\<exists>g. src = Function g)"
  shows "asyncIterator_of d = None \<and> Response_of d = None"
  using assms by (auto simp: preprocess_def URL_new_def split: option.splits)

lemma fetchFile_protocol_file:
  "protocol u = ''file'' \<Longrightarrow> fetchFile P u w = readFile P (PathString (pathname u)) w"
  by (simp add: fetchFile_def)

lemma fetchFile_fetches:
  "protocol u \<noteq> ''file'' \<Longrightarrow> fst (snd (fetchFile P u w)) = [Call_fetch u]"
  by (simp add: fetchFile_def split: prod.split sum.split option.split bool.split)

lemmas example_defs =
  example_platform_def example_new_URL_def example_URLs_def example_open_def example_fetch_def
  URL_example_com_def URL_x_bin_def URL_data_hi_def URL_tmp_a_txt_def URL_file_root_def
  URL_data_query_def
  example_producer_def Response_hello_def Response_no_body_def example_handle_def

lemmas run_defs =
  InputFile_new_def preprocess_def guessFilename_def URL_new_def basename_def
  asyncIterator_def fetchFile_def readFile_def raise_def drain_def reuse_error_def
  ResponseError_new_def assertNever_def Let_def

section \<open>Claims\<close>

text \<open>
  C1. The claim: reading an InputFile backed by a URL whose scheme is the local-file scheme
  delegates to \<^verbatim>\<open>readFile\<close> on the URL's path and performs no network fetch.
  The code compares \<^verbatim>\<open>url.protocol\<close> with \<^verbatim>\<open>"file"\<close>, while the
  \<^verbatim>\<open>protocol\<close> of a \<^verbatim>\<open>file:\<close> URL is \<^verbatim>\<open>"file:"\<close>. What the code does
  for such a URL: it calls \<^verbatim>\<open>fetch\<close> and opens no path; the only events of the
  read are the fetch and, if a body came back, its draining.
\<close>

theorem file_URL_is_fetched:
  assumes "fileData this = URL u" and "\<not> consumed this" and "protocol u = ''file:''"
  shows "events (asyncIterator P this w) = [Call_fetch u]
       \<or> events (asyncIterator P this w) = [Call_fetch u, Iterate]"
  using assms
  by (auto simp: asyncIterator_URL fetchFile_def reading_simps
           split: prod.splits sum.splits option.splits bool.splits)

theorem file_URL_is_fetched_witness:
  "fileData \<lparr> consumed = False, fileData = URL URL_tmp_a_txt, name = Some ''a.txt'' \<rparr> = URL URL_tmp_a_txt
   \<and> \<not> consumed \<lparr> consumed = False, fileData = URL URL_tmp_a_txt, name = Some ''a.txt'' \<rparr>
   \<and> protocol URL_tmp_a_txt = ''file:''
   \<and> InputFile_new example_platform (URL URL_tmp_a_txt) None
       = Inr \<lparr> consumed = False, fileData = URL URL_tmp_a_txt, name = Some ''a.txt'' \<rparr>
   \<and> events (asyncIterator example_platform
         \<lparr> consumed = False, fileData = URL URL_tmp_a_txt, name = Some ''a.txt'' \<rparr> 0)
       = [Call_fetch URL_tmp_a_txt]
   \<and> thrown (asyncIterator example_platform
         \<lparr> consumed = False, fileData = URL URL_tmp_a_txt, name = Some ''a.txt'' \<rparr> 0)
       = Some (Thrown ''fetch failed'')"
  using file_URL_is_fetched[of "\<lparr> consumed = False, fileData = URL URL_tmp_a_txt, name = Some ''a.txt'' \<rparr>"
      URL_tmp_a_txt example_platform 0]
  by (simp add: run_defs example_defs)

text \<open>
  C2. An InputFile built from \<^verbatim>\<open>{ readable: h }\<close> with \<open>h\<close> an async iterable, from a
  \<^verbatim>\<open>Response\<close>, or from an async iterable that the normalizer passes through: when a
  first read has ended without an exception, the next read throws the TypeError
  "Cannot reuse InputFile data source!" at once: it yields nothing, does nothing to the
  outside (no event) and leaves the world as the first read left it.
\<close>

theorem second_read_is_refused:
  assumes new: "InputFile_new P file filename = Inr this"
    and shape: "(base64_of file = None \<and> (\<exists>h. readable_of file = Some h \<and> asyncIterator_of h \<noteq> None))
              \<or> Response_of file \<noteq> None
              \<or> (base64_of file = None \<and> readable_of file = None \<and> url_of file = None
                   \<and> asyncIterator_of file \<noteq> None)"
    and first: "thrown (asyncIterator P this w) = None"
  shows "thrown (asyncIterator P (this_after (asyncIterator P this w))
                   (world_after (asyncIterator P this w)))
           = Some (TypeError ''Cannot reuse InputFile data source!'')
       \<and> yielded (asyncIterator P (this_after (asyncIterator P this w))
                   (world_after (asyncIterator P this w))) = []
       \<and> events (asyncIterator P (this_after (asyncIterator P this w))
                   (world_after (asyncIterator P this w))) = []
       \<and> world_after (asyncIterator P (this_after (asyncIterator P this w))
                   (world_after (asyncIterator P this w))) = world_after (asyncIterator P this w)"
proof -
  have pre: "preprocess P file = Inr (fileData this)"
    using new by (simp add: InputFile_new_fresh)
  have "asyncIterator_of (fileData this) \<noteq> None \<or> Response_of (fileData this) \<noteq> None"
    using shape
  proof (elim disjE conjE exE)
    fix h assume "base64_of file = None" "readable_of file = Some h" "asyncIterator_of h \<noteq> None"
    then show ?thesis using pre by (simp add: preprocess_readable)
  next
    assume "Response_of file \<noteq> None"
    then obtain res where "file = Response res" by (cases "file") auto
    with pre have "fileData this = Response res" by (simp add: preprocess_Response)
    then show ?thesis by simp
  next
    assume "base64_of file = None" "readable_of file = None" "url_of file = None"
      "asyncIterator_of file \<noteq> None"
    then show ?thesis using pre by (simp add: preprocess_passes)
  qed
  from second_read[OF this first] show ?thesis
    by (simp add: reading_simps reuse_error_def)
qed

theorem second_read_is_refused_witness:
  "InputFile_new example_platform (Response Response_hello) None
     = Inr \<lparr> consumed = False, fileData = Response Response_hello, name = Some ''x.bin'' \<rparr>
   \<and> asyncIterator example_platform
        \<lparr> consumed = False, fileData = Response Response_hello, name = Some ''x.bin'' \<rparr> 0
      = \<lparr> yielded = [[104, 105]], thrown = None, events = [Iterate],
          this_after = \<lparr> consumed = True, fileData = Response Response_hello, name = Some ''x.bin'' \<rparr>,
          world_after = 0 \<rparr>
   \<and> asyncIterator example_platform
        \<lparr> consumed = True, fileData = Response Response_hello, name = Some ''x.bin'' \<rparr> 0
      = \<lparr> yielded = [], thrown = Some (TypeError ''Cannot reuse InputFile data source!''),
          events = [],
          this_after = \<lparr> consumed = True, fileData = Response Response_hello, name = Some ''x.bin'' \<rparr>,
          world_after = 0 \<rparr>
   \<and> InputFile_new example_platform (Object None (Some example_handle) None None None) None
     = Inr \<lparr> consumed = False, fileData = example_handle, name = Some ''y.txt'' \<rparr>
   \<and> asyncIterator example_platform
        \<lparr> consumed = False, fileData = example_handle, name = Some ''y.txt'' \<rparr> 0
      = \<lparr> yielded = [[1], [2]], thrown = None, events = [Iterate],
          this_after = \<lparr> consumed = True, fileData = example_handle, name = Some ''y.txt'' \<rparr>,
          world_after = 0 \<rparr>
   \<and> thrown (asyncIterator example_platform
        \<lparr> consumed = True, fileData = example_handle, name = Some ''y.txt'' \<rparr> 0)
      = Some (TypeError ''Cannot reuse InputFile data source!'')
   \<and> events (asyncIterator example_platform
        \<lparr> consumed = True, fileData = example_handle, name = Some ''y.txt'' \<rparr> 0) = []"
proof -
  have new: "InputFile_new example_platform (Response Response_hello) None
     = Inr \<lparr> consumed = False, fileData = Response Response_hello, name = Some ''x.bin'' \<rparr>"
    by (simp add: run_defs example_defs)
  have first: "asyncIterator example_platform
        \<lparr> consumed = False, fileData = Response Response_hello, name = Some ''x.bin'' \<rparr> 0
      = \<lparr> yielded = [[104, 105]], thrown = None, events = [Iterate],
          this_after = \<lparr> consumed = True, fileData = Response Response_hello, name = Some ''x.bin'' \<rparr>,
          world_after = 0 \<rparr>"
    by (simp add: run_defs example_defs)
  have second: "asyncIterator example_platform
        \<lparr> consumed = True, fileData = Response Response_hello, name = Some ''x.bin'' \<rparr> 0
      = \<lparr> yielded = [], thrown = Some (TypeError ''Cannot reuse InputFile data source!''),
          events = [],
          this_after = \<lparr> consumed = True, fileData = Response Response_hello, name = Some ''x.bin'' \<rparr>,
          world_after = 0 \<rparr>"
    using second_read_is_refused[OF new, of 0] first
    by (simp add: asyncIterator_consumed raise_def reuse_error_def)
  have new': "InputFile_new example_platform (Object None (Some example_handle) None None None) None
     = Inr \<lparr> consumed = False, fileData = example_handle, name = Some ''y.txt'' \<rparr>"
    by (simp add: run_defs example_handle_def)
  have first': "asyncIterator example_platform
        \<lparr> consumed = False, fileData = example_handle, name = Some ''y.txt'' \<rparr> 0
      = \<lparr> yielded = [[1], [2]], thrown = None, events = [Iterate],
          this_after = \<lparr> consumed = True, fileData = example_handle, name = Some ''y.txt'' \<rparr>,
          world_after = 0 \<rparr>"
    by (simp add: run_defs example_handle_def)
  have shape: "asyncIterator_of example_handle \<noteq> None"
    by (simp add: example_handle_def)
  have second': "thrown (asyncIterator example_platform
        \<lparr> consumed = True, fileData = example_handle, name = Some ''y.txt'' \<rparr> 0)
      = Some (TypeError ''Cannot reuse InputFile data source!'')
   \<and> events (asyncIterator example_platform
        \<lparr> consumed = True, fileData = example_handle, name = Some ''y.txt'' \<rparr> 0) = []"
    using second_read_is_refused[OF new', of 0] first' shape by simp
  show ?thesis using new first second new' first' second' by simp
qed

text \<open>
  C3. A read that finds the body of its \<^verbatim>\<open>Response\<close> null, and a read of a URL whose
  fetch returns a response that is not ok or has no body, throw the
  \<^verbatim>\<open>ResponseError\<close> built from that response, having yielded nothing. Its
  \<^verbatim>\<open>error_code\<close> is the status of the response; its message is the status text, or
  "No response body" when the body is null, followed by " from " and the URL of the
  response when that URL is not empty.
\<close>

theorem response_error_carries_status:
  "(fileData this = Response res \<and> \<not> consumed this \<and> body res = None \<longrightarrow>
      thrown (asyncIterator P this w) = Some (ResponseErr (ResponseError_new res))
      \<and> yielded (asyncIterator P this w) = [])
   \<and> (fileData this = URL u \<and> \<not> consumed this \<and> protocol u \<noteq> ''file''
        \<and> fetch P u w = (Inr res, w') \<and> (\<not> ok res \<or> body res = None) \<longrightarrow>
      thrown (asyncIterator P this w) = Some (ResponseErr (ResponseError_new res))
      \<and> yielded (asyncIterator P this w) = []
      \<and> events (asyncIterator P this w) = [Call_fetch u])
   \<and> error_code (ResponseError_new res) = status res
   \<and> of_response (ResponseError_new res) = res
   \<and> message (ResponseError_new res) =
       (if body res = None then ''No response body'' else statusText res)
       @ (if url res = [] then [] else '' from '' @ url res)"
  by (auto simp: asyncIterator_Response asyncIterator_URL fetchFile_def reading_simps
        ResponseError_new_def split: option.splits bool.splits)

theorem response_error_carries_status_witness:
  "thrown (asyncIterator example_platform
      \<lparr> consumed = False, fileData = Response Response_no_body, name = None \<rparr> 0)
    = Some (ResponseErr \<lparr> message = ''No response body'', error_name = ''ResponseError'',
                          error_code = 204, of_response = Response_no_body \<rparr>)
   \<and> fetch example_platform URL_x_bin 0
      = (Inr \<lparr> status = 404, statusText = ''Not Found'', url = ''https://example.com/data/x.bin'',
               ok = False, body = Some (Stream [] None) \<rparr>, 1)
   \<and> thrown (asyncIterator example_platform
      \<lparr> consumed = False, fileData = URL URL_x_bin, name = Some ''x.bin'' \<rparr> 0)
    = Some (ResponseErr \<lparr> message = ''Not Found from https://example.com/data/x.bin'',
          error_name = ''ResponseError'', error_code = 404,
          of_response = \<lparr> status = 404, statusText = ''Not Found'',
            url = ''https://example.com/data/x.bin'', ok = False, body = Some (Stream [] None) \<rparr> \<rparr>)"
proof -
  have f: "fetch example_platform URL_x_bin 0
      = (Inr \<lparr> status = 404, statusText = ''Not Found'', url = ''https://example.com/data/x.bin'',
               ok = False, body = Some (Stream [] None) \<rparr>, 1)"
    by (simp add: example_defs)
  have p: "protocol URL_x_bin \<noteq> ''file''" by (simp add: example_defs)
  have b: "body Response_no_body = None" by (simp add: example_defs)
  note a = response_error_carries_status[where
      this = "\<lparr> consumed = False, fileData = Response Response_no_body, name = None \<rparr>"
      and res = Response_no_body and u = URL_x_bin and P = example_platform and w = 0 and w' = 1]
  note c = response_error_carries_status[where
      this = "\<lparr> consumed = False, fileData = URL URL_x_bin, name = Some ''x.bin'' \<rparr>"
      and res = "\<lparr> status = 404, statusText = ''Not Found'', url = ''https://example.com/data/x.bin'',
               ok = False, body = Some (Stream [] None) \<rparr>"
      and u = URL_x_bin and P = example_platform and w = 0 and w' = 1]
  show ?thesis using a c f p b
    by (simp add: ResponseError_new_def Response_no_body_def)
qed

text \<open>
  C4. The flag \<open>consumed\<close> of a new InputFile is false. Over any run of reads it never
  goes back from true to false, so it changes at most once. A read sets it only when the
  stored representation is an async iterable (a readable handle or a generic iterable) or
  a \<^verbatim>\<open>Response\<close> with a body. An InputFile built from a \<^verbatim>\<open>Uint8Array\<close>, from
  \<^verbatim>\<open>{ path }\<close>, from a \<^verbatim>\<open>URL\<close> or \<^verbatim>\<open>{ url }\<close>, from \<^verbatim>\<open>{ base64 }\<close> or
  from a producer function still has it false after any number of reads.
\<close>

theorem consumed_only_goes_from_false_to_true:
  "(InputFile_new P src filename = Inr this \<longrightarrow> \<not> consumed this)
   \<and> (consumed (fst (reads P m that w)) \<longrightarrow> consumed (fst (reads P (m + k) that w)))
   \<and> (\<not> consumed that \<and> consumed (this_after (asyncIterator P that w)) \<longrightarrow>
        asyncIterator_of (fileData that) \<noteq> None
        \<or> (\<exists>res s. fileData that = Response res \<and> body res = Some s))
   \<and> (InputFile_new P src filename = Inr this
        \<and> ((\<exists>b. src = Uint8Array b)
           \<or> (\<exists>p. src = Object None None None (Some p) None)
           \<or> (\<exists>u. src = URL u)
           \<or> (\<exists>s. src = Object None None (Some s) None None)
           \<or> (\<exists>b. src = Object (Some b) None None None None)
           \<or> (\<exists>g. src = Function g)) \<longrightarrow>
        \<not> consumed (fst (reads P n this w)))"
proof (intro conjI impI)
  assume "InputFile_new P src filename = Inr this"
  then show "\<not> consumed this" by (simp add: InputFile_new_fresh)
next
  assume "consumed (fst (reads P m that w))"
  then show "consumed (fst (reads P (m + k) that w))"
    by (simp add: reads_add split_beta consumed_reads_mono)
next
  assume "\<not> consumed that \<and> consumed (this_after (asyncIterator P that w))"
  then show "asyncIterator_of (fileData that) \<noteq> None
        \<or> (\<exists>res s. fileData that = Response res \<and> body res = Some s)"
    by (auto simp: consumed_after)
next
  assume a: "InputFile_new P src filename = Inr this
        \<and> ((\<exists>b. src = Uint8Array b)
           \<or> (\<exists>p. src = Object None None None (Some p) None)
           \<or> (\<exists>u. src = URL u)
           \<or> (\<exists>s. src = Object None None (Some s) None None)
           \<or> (\<exists>b. src = Object (Some b) None None None None)
           \<or> (\<exists>g. src = Function g))"
  then have fresh: "\<not> consumed this" and pre: "preprocess P src = Inr (fileData this)"
    using InputFile_new_fresh[of P "src" filename this] by simp_all
  have "asyncIterator_of (fileData this) = None \<and> Response_of (fileData this) = None"
    using a pre by (intro preprocess_rereadable[of P src]) simp_all
  then show "\<not> consumed (fst (reads P n this w))"
    using fresh by (simp add: never_consumed_reads)
qed


theorem consumed_only_goes_from_false_to_true_witness:
  "InputFile_new example_platform (Uint8Array [1, 2]) None
     = Inr \<lparr> consumed = False, fileData = Uint8Array [1, 2], name = None \<rparr>
   \<and> \<not> consumed (fst (reads example_platform 2
         \<lparr> consumed = False, fileData = Uint8Array [1, 2], name = None \<rparr> 0))
   \<and> \<not> consumed \<lparr> consumed = False, fileData = Response Response_hello, name = None \<rparr>
   \<and> consumed (this_after (asyncIterator example_platform
         \<lparr> consumed = False, fileData = Response Response_hello, name = None \<rparr> 0))
   \<and> (\<exists>res s. fileData \<lparr> consumed = False, fileData = Response Response_hello, name = None \<rparr>
          = (Response res :: nat jsval) \<and> body res = Some s)
   \<and> consumed (fst (reads example_platform 1
         \<lparr> consumed = False, fileData = Response Response_hello, name = None \<rparr> 0))
   \<and> consumed (fst (reads example_platform (1 + 2)
         \<lparr> consumed = False, fileData = Response Response_hello, name = None \<rparr> 0))"
proof -
  have new: "InputFile_new example_platform (Uint8Array [1, 2]) None
     = Inr \<lparr> consumed = False, fileData = Uint8Array [1, 2], name = None \<rparr>"
    by (simp add: InputFile_new_def preprocess_def guessFilename_def)
  have set1: "consumed (this_after (asyncIterator example_platform
         \<lparr> consumed = False, fileData = Response Response_hello, name = None \<rparr> 0))"
    by (simp add: asyncIterator_Response Response_hello_def reading_simps)
  have one: "consumed (fst (reads example_platform 1
         \<lparr> consumed = False, fileData = Response Response_hello, name = None \<rparr> 0))"
    using set1 by (simp add: Let_def)
  note t = consumed_only_goes_from_false_to_true[where P = example_platform
      and src = "Uint8Array [1, 2]" and filename = None
      and this = "\<lparr> consumed = False, fileData = Uint8Array [1, 2], name = None \<rparr>"
      and that = "\<lparr> consumed = False, fileData = Response Response_hello, name = None \<rparr>"
      and w = 0 and m = 1 and k = 2 and n = 2]
  show ?thesis using t new set1 one
    by (simp add: Response_hello_def)
qed

text \<open>
  C5, as amended. Without a filename the name is inferred from the normalized
  representation, the value \<^verbatim>\<open>preprocess\<close> returns, in this precedence. A
  representation with a \<^verbatim>\<open>path\<close> string gives the basename of that path; an input
  with a \<^verbatim>\<open>path\<close> string and no \<^verbatim>\<open>base64\<close>, \<^verbatim>\<open>readable\<close> or \<^verbatim>\<open>url\<close> field
  is its own representation, so \<^verbatim>\<open>{ path: "a/b/report.csv" }\<close> gives
  \<^verbatim>\<open>"report.csv"\<close>. Otherwise a representation with a non-empty \<^verbatim>\<open>url\<close> string
  (a fetched \<^verbatim>\<open>Response\<close>) is named as the URL built from that string, and the
  constructor throws when the string is not a URL. A \<^verbatim>\<open>File\<close> gives its
  \<^verbatim>\<open>name\<close>. A value with no \<^verbatim>\<open>path\<close> string and no non-empty \<^verbatim>\<open>url\<close> string
  that is neither a \<^verbatim>\<open>File\<close> nor a URL gives no name. A URL whose path is not
  \<^verbatim>\<open>"/"\<close> and has a non-empty basename gives that basename; otherwise the URL gives
  the basename of its \<^verbatim>\<open>hostname\<close>, which is the hostname itself when it has no
  slash (\<^verbatim>\<open>"example.com"\<close> for \<^verbatim>\<open>{ url: "https://example.com/" }\<close>) and is the
  empty string when the URL has no host.
\<close>

theorem filename_inference_precedence:
  "(preprocess P src = Inr d \<and> guessFilename P d = Inr g \<longrightarrow>
      InputFile_new P src None = Inr \<lparr> consumed = False, fileData = d, name = g \<rparr>)
   \<and> (preprocess P src = Inr d \<and> guessFilename P d = Inl e \<longrightarrow>
      InputFile_new P src None = Inl e)
   \<and> (path_of d = Some (PathString p) \<longrightarrow> guessFilename P d = Inr (Some (basename p)))
   \<and> InputFile_new P (Object None None None (Some (PathString p)) a) None
       = Inr \<lparr> consumed = False, fileData = Object None None None (Some (PathString p)) a,
               name = Some (basename p) \<rparr>
   \<and> ((\<forall>q. path_of d \<noteq> Some (PathString q)) \<and> url_of d = Some s \<and> s \<noteq> []
        \<and> new_URL P s = Some u \<longrightarrow> guessFilename P d = guessFilename P (URL u))
   \<and> ((\<forall>q. path_of d \<noteq> Some (PathString q)) \<and> url_of d = Some s \<and> s \<noteq> []
        \<and> new_URL P s = None \<longrightarrow> guessFilename P d = Inl (TypeError ''Invalid URL''))
   \<and> guessFilename P (File n c) = Inr (Some n)
   \<and> ((\<forall>q. path_of d \<noteq> Some (PathString q)) \<and> (url_of d = None \<or> url_of d = Some [])
        \<and> File_name_of d = None \<and> URL_of d = None \<longrightarrow> guessFilename P d = Inr None)
   \<and> (pathname u \<noteq> ''/'' \<and> basename (pathname u) \<noteq> [] \<longrightarrow>
        guessFilename P (URL u) = Inr (Some (basename (pathname u))))
   \<and> (pathname u = ''/'' \<or> basename (pathname u) = [] \<longrightarrow>
        guessFilename P (URL u) = Inr (Some (basename (hostname u))))
   \<and> ((pathname u = ''/'' \<or> basename (pathname u) = []) \<and> CHR ''/'' \<notin> set (hostname u) \<longrightarrow>
        guessFilename P (URL u) = Inr (Some (hostname u)))
   \<and> (pathname u = ''/'' \<and> hostname u = [] \<longrightarrow> guessFilename P (URL u) = Inr (Some []))
   \<and> InputFile_new P (Object None None None (Some (PathString ''a/b/report.csv'')) None) None
       = Inr \<lparr> consumed = False,
               fileData = Object None None None (Some (PathString ''a/b/report.csv'')) None,
               name = Some ''report.csv'' \<rparr>
   \<and> (new_URL P ''https://example.com/'' = Some u \<and> pathname u = ''/''
        \<and> hostname u = ''example.com'' \<longrightarrow>
        InputFile_new P (Object None None (Some ''https://example.com/'') None None) None
          = Inr \<lparr> consumed = False, fileData = URL u, name = Some ''example.com'' \<rparr>)"
proof (intro conjI impI)
  assume "preprocess P src = Inr d \<and> guessFilename P d = Inr g"
  then show "InputFile_new P src None = Inr \<lparr> consumed = False, fileData = d, name = g \<rparr>"
    by (simp add: InputFile_new_def)
next
  assume "preprocess P src = Inr d \<and> guessFilename P d = Inl e"
  then show "InputFile_new P src None = Inl e"
    by (simp add: InputFile_new_def)
next
  assume "path_of d = Some (PathString p)"
  then show "guessFilename P d = Inr (Some (basename p))"
    by (simp add: guessFilename_def)
next
  show "InputFile_new P (Object None None None (Some (PathString p)) a) None
       = Inr \<lparr> consumed = False, fileData = Object None None None (Some (PathString p)) a,
               name = Some (basename p) \<rparr>"
    by (simp add: InputFile_new_def preprocess_def guessFilename_def)
next
  assume "(\<forall>q. path_of d \<noteq> Some (PathString q)) \<and> url_of d = Some s \<and> s \<noteq> []
        \<and> new_URL P s = Some u"
  then show "guessFilename P d = guessFilename P (URL u)"
    by (auto simp: guessFilename_def URL_new_def split: option.splits path_value.splits)
next
  assume "(\<forall>q. path_of d \<noteq> Some (PathString q)) \<and> url_of d = Some s \<and> s \<noteq> []
        \<and> new_URL P s = None"
  then show "guessFilename P d = Inl (TypeError ''Invalid URL'')"
    by (auto simp: guessFilename_def URL_new_def split: option.splits path_value.splits)
next
  show "guessFilename P (File n c) = Inr (Some n)"
    by (simp add: guessFilename_def)
next
  assume "(\<forall>q. path_of d \<noteq> Some (PathString q)) \<and> (url_of d = None \<or> url_of d = Some [])
        \<and> File_name_of d = None \<and> URL_of d = None"
  then show "guessFilename P d = Inr None"
    by (auto simp: guessFilename_def split: option.splits path_value.splits)
next
  assume "pathname u \<noteq> ''/'' \<and> basename (pathname u) \<noteq> []"
  then show "guessFilename P (URL u) = Inr (Some (basename (pathname u)))"
    by (simp add: guessFilename_def)
next
  assume "pathname u = ''/'' \<or> basename (pathname u) = []"
  then show "guessFilename P (URL u) = Inr (Some (basename (hostname u)))"
    by (auto simp: guessFilename_def)
next
  assume "(pathname u = ''/'' \<or> basename (pathname u) = []) \<and> CHR ''/'' \<notin> set (hostname u)"
  then show "guessFilename P (URL u) = Inr (Some (hostname u))"
    by (auto simp: guessFilename_def basename_no_slash)
next
  assume "pathname u = ''/'' \<and> hostname u = []"
  then show "guessFilename P (URL u) = Inr (Some [])"
    by (simp add: guessFilename_def basename_def)
next
  show "InputFile_new P (Object None None None (Some (PathString ''a/b/report.csv'')) None) None
       = Inr \<lparr> consumed = False,
               fileData = Object None None None (Some (PathString ''a/b/report.csv'')) None,
               name = Some ''report.csv'' \<rparr>"
    by (simp add: InputFile_new_def preprocess_def guessFilename_def basename_def)
next
  assume "new_URL P ''https://example.com/'' = Some u \<and> pathname u = ''/''
        \<and> hostname u = ''example.com''"
  then show "InputFile_new P (Object None None (Some ''https://example.com/'') None None) None
          = Inr \<lparr> consumed = False, fileData = URL u, name = Some ''example.com'' \<rparr>"
    by (simp add: InputFile_new_def preprocess_def URL_new_def guessFilename_def basename_def)
qed

theorem filename_inference_precedence_witness:
  "guessFilename example_platform
      (Object None None None (Some (PathString ''a/b/report.csv'')) (Some (Stream [] None)))
     = Inr (Some ''report.csv'')
   \<and> guessFilename example_platform (Uint8Array [1]) = Inr None
   \<and> guessFilename example_platform (Response Response_hello) = Inr (Some ''x.bin'')
   \<and> guessFilename example_platform (URL URL_x_bin) = Inr (Some ''x.bin'')
   \<and> guessFilename example_platform (URL URL_example_com) = Inr (Some ''example.com'')
   \<and> guessFilename example_platform (URL URL_file_root) = Inr (Some [])
   \<and> InputFile_new example_platform (Object None None (Some ''https://example.com/'') None None) None
       = Inr \<lparr> consumed = False, fileData = URL URL_example_com, name = Some ''example.com'' \<rparr>
   \<and> InputFile_new example_platform (Response Response_hello) None
       = Inr \<lparr> consumed = False, fileData = Response Response_hello, name = Some ''x.bin'' \<rparr>
   \<and> InputFile_new example_platform (Response (Response_hello\<lparr> url := ''no url'' \<rparr>)) None
       = Inl (TypeError ''Invalid URL'')"
proof -
  note t = filename_inference_precedence[where P = example_platform]
  have 1: "guessFilename example_platform
      (Object None None None (Some (PathString ''a/b/report.csv'')) (Some (Stream [] None)))
     = Inr (Some ''report.csv'')"
    using t[where d = "Object None None None (Some (PathString ''a/b/report.csv'')) (Some (Stream [] None))"
        and p = "''a/b/report.csv''"]
    by (simp add: basename_def)
  have 2: "guessFilename example_platform (Uint8Array [1]) = Inr None"
    using t[where d = "Uint8Array [1]"] by simp
  have x: "guessFilename example_platform (URL URL_x_bin) = Inr (Some ''x.bin'')"
    using t[where u = URL_x_bin] by (simp add: basename_def URL_x_bin_def)
  have 3: "guessFilename example_platform (Response Response_hello) = Inr (Some ''x.bin'')"
    using t[where d = "Response Response_hello" and s = "''https://example.com/data/x.bin''"
        and u = URL_x_bin] x
    by (simp add: example_defs)
  have 4: "guessFilename example_platform (URL URL_example_com) = Inr (Some ''example.com'')"
    using t[where u = URL_example_com] by (simp add: URL_example_com_def basename_def)
  have 5: "guessFilename example_platform (URL URL_file_root) = Inr (Some [])"
    using t[where u = URL_file_root] by (simp add: URL_file_root_def basename_def)
  have 6: "InputFile_new example_platform (Object None None (Some ''https://example.com/'') None None) None
       = Inr \<lparr> consumed = False, fileData = URL URL_example_com, name = Some ''example.com'' \<rparr>"
    using t[where u = URL_example_com] by (simp add: example_defs basename_def)
  have 7: "InputFile_new example_platform (Response Response_hello) None
       = Inr \<lparr> consumed = False, fileData = Response Response_hello, name = Some ''x.bin'' \<rparr>"
    using t[where src = "Response Response_hello" and d = "Response Response_hello"
        and g = "Some ''x.bin''"] 3
    by (simp add: preprocess_Response)
  have 8: "guessFilename example_platform (Response (Response_hello\<lparr> url := ''no url'' \<rparr>))
       = Inl (TypeError ''Invalid URL'')"
    using t[where d = "Response (Response_hello\<lparr> url := ''no url'' \<rparr>)" and s = "''no url''"]
    by (simp add: example_defs)
  have 9: "InputFile_new example_platform (Response (Response_hello\<lparr> url := ''no url'' \<rparr>)) None
       = Inl (TypeError ''Invalid URL'')"
    using t[where src = "Response (Response_hello\<lparr> url := ''no url'' \<rparr>)"
        and d = "Response (Response_hello\<lparr> url := ''no url'' \<rparr>)"
        and e = "TypeError ''Invalid URL''"] 8
    by (simp add: preprocess_Response)
  show ?thesis using 1 2 3 x 4 5 6 7 9 by simp
qed

text \<open>
  C5 as stated fails in three places. It says that the fallback is never an empty string:
  the URL \<^verbatim>\<open>file:///\<close> has the path \<^verbatim>\<open>"/"\<close> and an empty hostname, and its
  inferred name is the empty string. It says that a value that is not a URL gets no name:
  a \<^verbatim>\<open>Response\<close> fetched from \<^verbatim>\<open>https://example.com/data/x.bin\<close> is named
  \<^verbatim>\<open>"x.bin"\<close>. It says that an input with a path string is named after that path:
  the input \<^verbatim>\<open>{ path: "a/b/report.csv", url: "https://example.com/" }\<close> is
  normalized to the URL and named \<^verbatim>\<open>"example.com"\<close>.
\<close>

theorem filename_inference_counterexamples:
  "InputFile_new example_platform (URL URL_file_root) None
     = Inr \<lparr> consumed = False, fileData = URL URL_file_root, name = Some [] \<rparr>
   \<and> InputFile_new example_platform (Response Response_hello) None
     = Inr \<lparr> consumed = False, fileData = Response Response_hello, name = Some ''x.bin'' \<rparr>
   \<and> InputFile_new example_platform
       (Object None None (Some ''https://example.com/'') (Some (PathString ''a/b/report.csv'')) None)
       None
     = Inr \<lparr> consumed = False, fileData = URL URL_example_com, name = Some ''example.com'' \<rparr>"
  by (simp add: run_defs example_defs)

text \<open>
  C6. An InputFile built from a producer function: every read calls the producer in the
  world it finds and drains the iterable the producer returns, leaving the instance as it
  was; it never throws the reuse error. When the producer returns a working iterable at
  the first read and again at the second, both reads succeed, each with the chunks of its
  own call.
\<close>

theorem lazy_source_is_called_on_every_read:
  assumes new: "InputFile_new P (Function g) filename = Inr this"
  shows "asyncIterator P this w =
           (case g w of
              (Inl m, w') \<Rightarrow>
                \<lparr> yielded = [], thrown = Some (Thrown m), events = [Call_producer],
                  this_after = this, world_after = w' \<rparr>
            | (Inr s, w') \<Rightarrow>
                \<lparr> yielded = items s, thrown = map_option Thrown (fault s),
                  events = [Call_producer, Iterate], this_after = this, world_after = w' \<rparr>)
       \<and> thrown (asyncIterator P this w) \<noteq> Some (TypeError ''Cannot reuse InputFile data source!'')
       \<and> (g w = (Inr (Stream c1 None), w1) \<and> g w1 = (Inr (Stream c2 None), w2) \<longrightarrow>
            asyncIterator P this w =
              \<lparr> yielded = c1, thrown = None, events = [Call_producer, Iterate],
                this_after = this, world_after = w1 \<rparr>
            \<and> asyncIterator P (this_after (asyncIterator P this w))
                 (world_after (asyncIterator P this w)) =
              \<lparr> yielded = c2, thrown = None, events = [Call_producer, Iterate],
                this_after = this, world_after = w2 \<rparr>)"
proof -
  have fresh: "\<not> consumed this" and d: "fileData this = Function g"
    using InputFile_new_fresh[OF new] by (simp_all add: preprocess_def)
  have r: "asyncIterator P this v =
           (case g v of
              (Inl m, w') \<Rightarrow>
                \<lparr> yielded = [], thrown = Some (Thrown m), events = [Call_producer],
                  this_after = this, world_after = w' \<rparr>
            | (Inr s, w') \<Rightarrow>
                \<lparr> yielded = items s, thrown = map_option Thrown (fault s),
                  events = [Call_producer, Iterate], this_after = this, world_after = w' \<rparr>)" for v
    by (simp add: asyncIterator_Function[OF fresh d] drain_def raise_def
          split: prod.split sum.split)
  have n: "thrown (asyncIterator P this w) \<noteq> Some (TypeError ''Cannot reuse InputFile data source!'')"
    by (cases "g w"; cases "fst (g w)") (auto simp: r)
  have t: "asyncIterator P this w =
              \<lparr> yielded = c1, thrown = None, events = [Call_producer, Iterate],
                this_after = this, world_after = w1 \<rparr>
            \<and> asyncIterator P (this_after (asyncIterator P this w))
                 (world_after (asyncIterator P this w)) =
              \<lparr> yielded = c2, thrown = None, events = [Call_producer, Iterate],
                this_after = this, world_after = w2 \<rparr>"
    if "g w = (Inr (Stream c1 None), w1)" and "g w1 = (Inr (Stream c2 None), w2)"
    using that by (simp add: r)
  show ?thesis using r[of w] n t by blast
qed

theorem lazy_source_is_called_on_every_read_witness:
  "InputFile_new example_platform (Function example_producer) None
     = Inr \<lparr> consumed = False, fileData = Function example_producer, name = None \<rparr>
   \<and> example_producer 0 = (Inr (Stream [[0]] None), 1)
   \<and> example_producer 1 = (Inr (Stream [[1]] None), 2)
   \<and> asyncIterator example_platform
        \<lparr> consumed = False, fileData = Function example_producer, name = None \<rparr> 0
      = \<lparr> yielded = [[0]], thrown = None, events = [Call_producer, Iterate],
          this_after = \<lparr> consumed = False, fileData = Function example_producer, name = None \<rparr>,
          world_after = 1 \<rparr>
   \<and> asyncIterator example_platform
        \<lparr> consumed = False, fileData = Function example_producer, name = None \<rparr> 1
      = \<lparr> yielded = [[1]], thrown = None, events = [Call_producer, Iterate],
          this_after = \<lparr> consumed = False, fileData = Function example_producer, name = None \<rparr>,
          world_after = 2 \<rparr>"
proof -
  have new: "InputFile_new example_platform (Function example_producer) None
     = Inr \<lparr> consumed = False, fileData = Function example_producer, name = None \<rparr>"
    by (simp add: InputFile_new_def preprocess_def guessFilename_def)
  have g0: "example_producer 0 = (Inr (Stream [[0]] None), 1)"
    and g1: "example_producer 1 = (Inr (Stream [[1]] None), 2)"
    by (simp_all add: example_producer_def)
  note t = lazy_source_is_called_on_every_read[OF new, where w = 0 and ?c1.0 = "[[0]]" and ?w1.0 = 1
       and ?c2.0 = "[[1]]" and ?w2.0 = 2]
  from t g0 g1 have a: "asyncIterator example_platform
        \<lparr> consumed = False, fileData = Function example_producer, name = None \<rparr> 0
      = \<lparr> yielded = [[0]], thrown = None, events = [Call_producer, Iterate],
          this_after = \<lparr> consumed = False, fileData = Function example_producer, name = None \<rparr>,
          world_after = 1 \<rparr>"
    by blast
  from t g0 g1 have "asyncIterator example_platform
        (this_after (asyncIterator example_platform
          \<lparr> consumed = False, fileData = Function example_producer, name = None \<rparr> 0))
        (world_after (asyncIterator example_platform
          \<lparr> consumed = False, fileData = Function example_producer, name = None \<rparr> 0))
      = \<lparr> yielded = [[1]], thrown = None, events = [Call_producer, Iterate],
          this_after = \<lparr> consumed = False, fileData = Function example_producer, name = None \<rparr>,
          world_after = 2 \<rparr>"
    by blast
  then have b: "asyncIterator example_platform
        \<lparr> consumed = False, fileData = Function example_producer, name = None \<rparr> 1
      = \<lparr> yielded = [[1]], thrown = None, events = [Call_producer, Iterate],
          this_after = \<lparr> consumed = False, fileData = Function example_producer, name = None \<rparr>,
          world_after = 2 \<rparr>"
    by (simp add: a)
  show ?thesis using new g0 g1 a b by simp
qed

text \<open>
  C7. An InputFile built from a \<^verbatim>\<open>Uint8Array\<close> has the name the caller gave, and no
  name when the caller gave none. Reading it yields exactly one chunk, the buffer itself,
  and ends without an exception, without touching the outside or the instance.
\<close>

theorem buffer_is_one_chunk_and_has_no_name:
  "InputFile_new P (Uint8Array b) None
     = Inr \<lparr> consumed = False, fileData = Uint8Array b, name = None \<rparr>
   \<and> InputFile_new P (Uint8Array b) (Some n)
     = Inr \<lparr> consumed = False, fileData = Uint8Array b, name = Some n \<rparr>
   \<and> asyncIterator P \<lparr> consumed = False, fileData = Uint8Array b, name = f \<rparr> w
     = \<lparr> yielded = [b], thrown = None, events = [],
         this_after = \<lparr> consumed = False, fileData = Uint8Array b, name = f \<rparr>,
         world_after = w \<rparr>"
  by (simp add: InputFile_new_def preprocess_def guessFilename_def asyncIterator_Uint8Array)

theorem buffer_is_one_chunk_and_has_no_name_witness:
  "InputFile_new example_platform (Uint8Array [104, 105]) None
     = Inr \<lparr> consumed = False, fileData = Uint8Array [104, 105], name = None \<rparr>
   \<and> yielded (asyncIterator example_platform
        \<lparr> consumed = False, fileData = Uint8Array [104, 105], name = None \<rparr> 0) = [[104, 105]]
   \<and> thrown (asyncIterator example_platform
        \<lparr> consumed = False, fileData = Uint8Array [104, 105], name = None \<rparr> 0) = None"
  using buffer_is_one_chunk_and_has_no_name[of example_platform "[104, 105]" "[]" None 0] by simp

text \<open>
  C8. \<^verbatim>\<open>preprocess\<close> tries its checks in a fixed order and the first that matches
  decides: a \<^verbatim>\<open>base64\<close> field gives \<^verbatim>\<open>new URL("data:;base64," + value)\<close>; else a
  \<^verbatim>\<open>readable\<close> field gives that field's value; else a \<^verbatim>\<open>Response\<close> is kept; else
  a \<^verbatim>\<open>url\<close> field gives \<^verbatim>\<open>new URL(value)\<close>; else the value is returned
  unchanged. The result does not depend on the I/O operations of the platform (and
  \<open>preprocess\<close> neither takes nor returns the world): the classification does no I/O.
\<close>

theorem preprocess_first_match_wins:
  "(base64_of data = Some b \<longrightarrow>
      preprocess P data =
        (case new_URL P (''data:;base64,'' @ b) of
           None \<Rightarrow> Inl (TypeError ''Invalid URL'') | Some u \<Rightarrow> Inr (URL u)))
   \<and> (base64_of data = None \<and> readable_of data = Some r \<longrightarrow> preprocess P data = Inr r)
   \<and> (base64_of data = None \<and> readable_of data = None \<and> Response_of data = Some res \<longrightarrow>
        preprocess P data = Inr data)
   \<and> (base64_of data = None \<and> readable_of data = None \<and> Response_of data = None
        \<and> url_of data = Some s \<longrightarrow>
        preprocess P data =
          (case new_URL P s of
             None \<Rightarrow> Inl (TypeError ''Invalid URL'') | Some u \<Rightarrow> Inr (URL u)))
   \<and> (base64_of data = None \<and> readable_of data = None \<and> Response_of data = None
        \<and> url_of data = None \<longrightarrow> preprocess P data = Inr data)
   \<and> preprocess (P\<lparr> isDeno := d, Deno_open := f1, createReadStream := f2, fetch := f3 \<rparr>) data
       = preprocess P data"
  by (auto simp: preprocess_def URL_new_def split: option.splits)

theorem preprocess_first_match_wins_witness:
  "preprocess example_platform
      (Object (Some ''aGk='') (Some (Uint8Array [1])) (Some ''https://example.com/'') None None)
     = Inr (URL URL_data_hi)
   \<and> preprocess example_platform
      (Object None (Some (Uint8Array [1])) (Some ''https://example.com/'') None None)
     = Inr (Uint8Array [1])
   \<and> preprocess example_platform (Response Response_hello) = Inr (Response Response_hello)
   \<and> preprocess example_platform (Object None None (Some ''https://example.com/'') None None)
     = Inr (URL URL_example_com)
   \<and> preprocess example_platform (Object None None None (Some (PathString ''a/b/report.csv'')) None)
     = Inr (Object None None None (Some (PathString ''a/b/report.csv'')) None)"
proof -
  note t = preprocess_first_match_wins[where P = example_platform]
  have 1: "preprocess example_platform
      (Object (Some ''aGk='') (Some (Uint8Array [1])) (Some ''https://example.com/'') None None)
     = Inr (URL URL_data_hi)"
    using t[where data = "Object (Some ''aGk='') (Some (Uint8Array [1])) (Some ''https://example.com/'') None None"
        and b = "''aGk=''"]
    by (simp add: example_defs)
  have 2: "preprocess example_platform
      (Object None (Some (Uint8Array [1])) (Some ''https://example.com/'') None None)
     = Inr (Uint8Array [1])"
    using t[where data = "Object None (Some (Uint8Array [1])) (Some ''https://example.com/'') None None"
        and r = "Uint8Array [1]"]
    by simp
  have 3: "preprocess example_platform (Response Response_hello) = Inr (Response Response_hello)"
    using t[where data = "Response Response_hello" and res = Response_hello] by simp
  have 4: "preprocess example_platform (Object None None (Some ''https://example.com/'') None None)
     = Inr (URL URL_example_com)"
    using t[where data = "Object None None (Some ''https://example.com/'') None None"
        and s = "''https://example.com/''"]
    by (simp add: example_defs)
  have 5: "preprocess example_platform (Object None None None (Some (PathString ''a/b/report.csv'')) None)
     = Inr (Object None None None (Some (PathString ''a/b/report.csv'')) None)"
    using t[where data = "Object None None None (Some (PathString ''a/b/report.csv'')) None"]
    by simp
  show ?thesis using 1 2 3 4 5 by simp
qed

text \<open>
  C9, as amended. For \<^verbatim>\<open>{ base64: s }\<close> without a filename, where \<open>s\<close> contains no
  slash and the \<^verbatim>\<open>URL\<close> constructor keeps \<^verbatim>\<open>;base64,\<close> followed by \<open>s\<close> whole
  as the path of the data URL (it does not when \<open>s\<close> contains \<^verbatim>\<open>?\<close> or \<^verbatim>\<open>#\<close>,
  where the path ends): the name of the InputFile is \<^verbatim>\<open>;base64,\<close> followed by
  \<open>s\<close>, and not absent. (The same holds for the empty \<open>s\<close>.)
\<close>

theorem base64_input_is_named_after_the_data_URL_path:
  assumes "CHR ''/'' \<notin> set s"
    and "new_URL P (''data:;base64,'' @ s) = Some u"
    and "pathname u = '';base64,'' @ s"
  shows "InputFile_new P (Object (Some s) None None None None) None
           = Inr \<lparr> consumed = False, fileData = URL u, name = Some ('';base64,'' @ s) \<rparr>"
proof -
  have "CHR ''/'' \<notin> set ('';base64,'' @ s)"
    using assms(1) by simp
  then have "basename ('';base64,'' @ s) = '';base64,'' @ s"
    by (rule basename_no_slash)
  then have b: "basename (pathname u) = '';base64,'' @ s"
    using assms(3) by simp
  have p: "preprocess P (Object (Some s) None None None None) = Inr (URL u)"
    using assms(2) by (simp add: preprocess_def URL_new_def)
  have g: "guessFilename P (URL u) = Inr (Some ('';base64,'' @ s))"
    using b assms(3) by (simp add: guessFilename_def)
  show ?thesis by (simp add: InputFile_new_def p g)
qed

theorem base64_input_is_named_after_the_data_URL_path_witness:
  "''aGk='' \<noteq> [] \<and> CHR ''/'' \<notin> set ''aGk=''
   \<and> new_URL example_platform ''data:;base64,aGk='' = Some URL_data_hi
   \<and> pathname URL_data_hi = '';base64,aGk=''
   \<and> InputFile_new example_platform (Object (Some ''aGk='') None None None None) None
       = Inr \<lparr> consumed = False, fileData = URL URL_data_hi, name = Some '';base64,aGk='' \<rparr>"
proof -
  have 2: "CHR ''/'' \<notin> set ''aGk=''" by simp
  have 3: "new_URL example_platform (''data:;base64,'' @ ''aGk='') = Some URL_data_hi"
    by (simp add: example_defs)
  have 4: "pathname URL_data_hi = '';base64,'' @ ''aGk=''" by (simp add: example_defs)
  show ?thesis using base64_input_is_named_after_the_data_URL_path[OF 2 3 4] 2 3 4 by simp
qed

text \<open>
  C9 as stated fails for \<^verbatim>\<open>{ base64: "a?b" }\<close>: the string is not empty and has no
  slash, the path of \<^verbatim>\<open>data:;base64,a?b\<close> is \<^verbatim>\<open>;base64,a\<close>, and that is the
  inferred name, not \<^verbatim>\<open>;base64,a?b\<close>.
\<close>

theorem base64_with_query_mark_is_named_after_the_shorter_path:
  "''a?b'' \<noteq> [] \<and> CHR ''/'' \<notin> set ''a?b''
   \<and> InputFile_new example_platform (Object (Some ''a?b'') None None None None) None
     = Inr \<lparr> consumed = False, fileData = URL URL_data_query, name = Some '';base64,a'' \<rparr>
   \<and> '';base64,a'' \<noteq> '';base64,a?b''"
  by (simp add: run_defs example_defs)

text \<open>
  C10. For \<^verbatim>\<open>{ url: s }\<close> where the \<^verbatim>\<open>URL\<close> constructor rejects \<open>s\<close>, the
  constructor of InputFile itself throws the TypeError, with or without a filename: no
  instance exists, so the failure comes before any read.
\<close>

theorem unparsable_url_throws_in_the_constructor:
  assumes "new_URL P s = None"
  shows "InputFile_new P (Object None None (Some s) None None) filename
           = Inl (TypeError ''Invalid URL'')"
  using assms by (simp add: InputFile_new_def preprocess_def URL_new_def)

theorem unparsable_url_throws_in_the_constructor_witness:
  "new_URL example_platform ''not a url'' = None
   \<and> InputFile_new example_platform (Object None None (Some ''not a url'') None None) None
       = Inl (TypeError ''Invalid URL'')"
proof -
  have n: "new_URL example_platform ''not a url'' = None"
    by (simp add: example_defs)
  show ?thesis using unparsable_url_throws_in_the_constructor[OF n, of None] n by simp
qed

end
